theory Spec2Isabelle
  imports Main
begin

section \<open>config.js: configuration loading and startup checks\<close>

text \<open>
  The module reads \<open>process.env\<close> once, builds the \<open>config\<close> object, adds one constant
  per queue name, and then either calls \<open>process.exit(1)\<close> or exports the object.
  \<open>process.env\<close> is a map from variable names to strings; an unset variable reads as
  \<open>undefined\<close> (\<open>None\<close>). A property of \<open>config\<close> holds a string, a number or the list of
  queue names; a property that is absent or holds \<open>undefined\<close> reads as \<open>None\<close>.
\<close>

type_synonym env = "string \<rightharpoonup> string"

datatype cval = CStr string | CNum int | CList "string list"

type_synonym config = "string \<rightharpoonup> cval"

text \<open>JavaScript truthiness of a property read: \<open>undefined\<close>, \<open>''\<close>, \<open>0\<close> and \<open>NaN\<close> are falsy.\<close>

fun truthy :: "cval option \<Rightarrow> bool" where
  "truthy None = False"
| "truthy (Some (CStr s)) = (s \<noteq> [])"
| "truthy (Some (CNum n)) = (n \<noteq> 0)"
| "truthy (Some (CList qs)) = True"

text \<open>\<open>process.env.X || d\<close> for a string default \<open>d\<close>.\<close>

definition env_or :: "env \<Rightarrow> string \<Rightarrow> string \<Rightarrow> string" where
  "env_or e k d = (case e k of None \<Rightarrow> d | Some s \<Rightarrow> if s \<noteq> [] then s else d)"

text \<open>
  \<open>parseInt(s, 10)\<close>: leading white space is skipped, one sign is read, then the longest
  run of decimal digits; no digit gives \<open>NaN\<close> (\<open>None\<close>), and so does \<open>undefined\<close>, whose
  string form starts with a letter. White space is the ASCII part of the language's set
  (tab, line feed, vertical tab, form feed, carriage return, space). Values are exact
  integers, as the doubles of the source are below \<open>2^53\<close>.
\<close>

definition is_space :: "char \<Rightarrow> bool" where
  "is_space c = (c \<in> set [CHR 0x09, CHR 0x0A, CHR 0x0B, CHR 0x0C, CHR 0x0D, CHR 0x20])"

definition is_digit :: "char \<Rightarrow> bool" where
  "is_digit c = (c \<in> set ''0123456789'')"

definition digit_val :: "char \<Rightarrow> int" where
  "digit_val c = int (of_char c) - 48"

definition digits_val :: "string \<Rightarrow> int" where
  "digits_val ds = foldl (\<lambda>acc c. acc * 10 + digit_val c) 0 ds"

definition parse_digits :: "string \<Rightarrow> int option" where
  "parse_digits s =
     (let ds = takeWhile is_digit s in if ds = [] then None else Some (digits_val ds))"

definition parse_signed :: "string \<Rightarrow> int option" where
  "parse_signed s =
     (case s of
        [] \<Rightarrow> None
      | c # cs \<Rightarrow>
          if c = CHR ''-'' then map_option uminus (parse_digits cs)
          else if c = CHR ''+'' then parse_digits cs
          else parse_digits s)"

definition parseInt :: "string option \<Rightarrow> int option" where
  "parseInt v = (case v of None \<Rightarrow> None | Some s \<Rightarrow> parse_signed (dropWhile is_space s))"

text \<open>\<open>parseInt(process.env.X, 10) || d\<close>: \<open>NaN\<close> and \<open>0\<close> are falsy, so both give \<open>d\<close>.\<close>

definition int_or :: "int option \<Rightarrow> int \<Rightarrow> int" where
  "int_or p d = (case p of None \<Rightarrow> d | Some n \<Rightarrow> if n \<noteq> 0 then n else d)"

definition QUEUE_NAMES :: "string list" where
  "QUEUE_NAMES =
     [''file-analysis-queue'',
      ''directory-aggregation-queue'',
      ''directory-resolution-queue'',
      ''relationship-resolution-queue'',
      ''reconciliation-queue'',
      ''failed-jobs'',
      ''analysis-findings-queue'',
      ''global-resolution-queue'',
      ''relationship-validated-queue'']"

text \<open>The object literal assigned to \<open>config\<close>.\<close>

definition config_literal :: "env \<Rightarrow> config" where
  "config_literal e =
     (Map.empty
        (''ANTHROPIC_API_KEY'' := map_option CStr (e ''ANTHROPIC_API_KEY'')))
        (''SQLITE_DB_PATH'' \<mapsto> CStr (env_or e ''SQLITE_DB_PATH'' ''./db.sqlite''),
         ''NEO4J_URI'' \<mapsto> CStr (env_or e ''NEO4J_URI'' ''bolt://localhost:7687''),
         ''NEO4J_USER'' \<mapsto> CStr (env_or e ''NEO4J_USER'' ''neo4j''),
         ''NEO4J_PASSWORD'' \<mapsto> CStr (env_or e ''NEO4J_PASSWORD'' ''password''),
         ''NEO4J_DATABASE'' \<mapsto> CStr (env_or e ''NEO4J_DATABASE'' ''neo4j''),
         ''INGESTOR_BATCH_SIZE'' \<mapsto> CNum (int_or (parseInt (e ''INGESTOR_BATCH_SIZE'')) 100),
         ''INGESTOR_INTERVAL_MS'' \<mapsto> CNum (int_or (parseInt (e ''INGESTOR_INTERVAL_MS'')) 10000),
         ''REDIS_URL'' \<mapsto> CStr (env_or e ''REDIS_URL'' ''redis://localhost:6379''),
         ''REDIS_PASSWORD'' :=
            (case e ''REDIS_PASSWORD'' of
               None \<Rightarrow> None
             | Some s \<Rightarrow> if s \<noteq> [] then Some (CStr s) else None),
         ''QUEUE_NAMES'' \<mapsto> CList QUEUE_NAMES)"

text \<open>
  \<open>queueName.replace(/-/g, '_').toUpperCase() + '_QUEUE_NAME'\<close>, on ASCII names:
  every hyphen becomes an underscore and the letters \<open>a\<close> to \<open>z\<close> become capitals
  (the capital's code is the letter's minus 32, that is, bit 5 cleared).
\<close>

definition replace_hyphen :: "char \<Rightarrow> char" where
  "replace_hyphen c = (if c = CHR ''-'' then CHR ''_'' else c)"

definition toUpperCase_char :: "char \<Rightarrow> char" where
  "toUpperCase_char c =
     (if c \<in> set ''abcdefghijklmnopqrstuvwxyz''
      then Char (digit0 c) (digit1 c) (digit2 c) (digit3 c) (digit4 c) False (digit6 c) (digit7 c)
      else c)"

definition constantName :: "string \<Rightarrow> string" where
  "constantName queueName =
     map toUpperCase_char (map replace_hyphen queueName) @ ''_QUEUE_NAME''"

text \<open>The \<open>forEach\<close> over \<open>config.QUEUE_NAMES\<close>: one assignment per name, in list order.\<close>

definition add_queue_constants :: "config \<Rightarrow> config" where
  "add_queue_constants c =
     (case c ''QUEUE_NAMES'' of
        Some (CList qs) \<Rightarrow> fold (\<lambda>queueName c'. c'(constantName queueName \<mapsto> CStr queueName)) qs c
      | _ \<Rightarrow> c)"

definition required_configs :: "string list" where
  "required_configs =
     [''SQLITE_DB_PATH'', ''NEO4J_URI'', ''NEO4J_USER'', ''NEO4J_PASSWORD'',
      ''ANTHROPIC_API_KEY'', ''REDIS_URL'']"

text \<open>A variable that is unset or set to the empty string: \<open>!process.env.X\<close>.\<close>

definition unset :: "env \<Rightarrow> string \<Rightarrow> bool" where
  "unset e k = (e k = None \<or> e k = Some [])"

definition is_production :: "env \<Rightarrow> bool" where
  "is_production e = (e ''NODE_ENV'' = Some ''production'')"

text \<open>
  Loading the module: \<open>Inl n\<close> is \<open>process.exit(n)\<close>, \<open>Inr c\<close> is the exported object.
\<close>

definition load_config :: "env \<Rightarrow> int + config" where
  "load_config e =
     (let config = add_queue_constants (config_literal e);
          required = required_configs @ (if is_production e then [''REDIS_PASSWORD''] else []);
          missing_configs = filter (\<lambda>key. \<not> truthy (config key)) required
      in if length missing_configs > 0 then Inl 1
         else if is_production e \<and> config ''NEO4J_PASSWORD'' = Some (CStr ''password'') then Inl 1
         else Inr config)"

section \<open>anthropicClient.js: the oracle client\<close>

text \<open>
  A JavaScript \<open>Error\<close> as the client reads it: its message, and the \<open>status\<close> and
  \<open>code\<close> properties, which are \<open>undefined\<close> (\<open>None\<close>) unless somebody set them.
  \<open>new Error(m)\<close> sets neither.
\<close>

record js_error =
  message :: string
  status :: "int option"
  code :: "string option"

definition new_Error :: "string \<Rightarrow> js_error" where
  "new_Error m = \<lparr>message = m, status = None, code = None\<rparr>"

text \<open>Decimal text of a number, for the template literal \<open>`HTTP ${res.statusCode}`\<close>.\<close>

fun show_nat :: "nat \<Rightarrow> string" where
  "show_nat n =
     (if n < 10 then [''0123456789'' ! n]
      else show_nat (n div 10) @ [''0123456789'' ! (n mod 10)])"

definition show_int :: "int \<Rightarrow> string" where
  "show_int i = (if i < 0 then CHR ''-'' # show_nat (nat (- i)) else show_nat (nat i))"

subsection \<open>One HTTPS request\<close>

text \<open>
  What the network does to one request is the environment's choice. The promise of
  \<open>_makeRequest\<close> is settled by the first of three events:
  \<^item> the response ends, with a status code and a body. \<open>JSON.parse\<close> of the body
    throws (\<open>Unparseable\<close>, with the parser's message), yields \<open>null\<close>, or yields another
    value; of that value the client reads \<open>parsedData.error?.message\<close>, kept here as
    \<open>Some m\<close> when it is a non-empty string and \<open>None\<close> when it is falsy;
  \<^item> the request emits \<open>error\<close> with an error object of Node's making;
  \<^item> the socket has been idle for \<open>this.timeout\<close> milliseconds and the request emits
    \<open>timeout\<close>.
\<close>

datatype 'r parsed = Unparseable string | JsonNull | JsonValue 'r "string option"

datatype 'r transport =
    Response int "'r parsed"
  | SocketError js_error
  | SocketTimeout

text \<open>
  \<open>_makeRequest\<close>: \<open>Inr\<close> is \<open>resolve\<close>, \<open>Inl\<close> is \<open>reject\<close>. Building the headers reads
  \<open>this.apiKey\<close>, whose getter throws inside the promise executor when no key is
  configured. Reading \<open>.error\<close> of \<open>null\<close> throws a \<open>TypeError\<close> inside the \<open>try\<close>, so it is
  reported as a parse failure (the text is the engine's).
\<close>

definition makeRequest :: "string option \<Rightarrow> 'r transport \<Rightarrow> js_error + 'r parsed" where
  "makeRequest apiKey ev =
     (if apiKey = None \<or> apiKey = Some []
      then Inl (new_Error ''ANTHROPIC_API_KEY environment variable is required'')
      else
        (case ev of
           Response statusCode b \<Rightarrow>
             (case b of
                Unparseable m \<Rightarrow> Inl (new_Error (''Failed to parse response: '' @ m))
              | JsonNull \<Rightarrow>
                  if 200 \<le> statusCode \<and> statusCode < 300 then Inr JsonNull
                  else Inl (new_Error (''Failed to parse response: '' @
                         ''Cannot read properties of null (reading 'error')''))
              | JsonValue parsedData em \<Rightarrow>
                  if 200 \<le> statusCode \<and> statusCode < 300 then Inr (JsonValue parsedData em)
                  else Inl ((new_Error
                               (case em of
                                  None \<Rightarrow> ''HTTP '' @ show_int statusCode
                                | Some m \<Rightarrow> if m \<noteq> [] then m else ''HTTP '' @ show_int statusCode))
                            \<lparr>status := Some statusCode\<rparr>))
         | SocketError error \<Rightarrow> Inl error
         | SocketTimeout \<Rightarrow> Inl (new_Error ''Request timeout'')))"

subsection \<open>The retry loop\<close>

text \<open>
  \<open>_isRetryableError\<close>: \<open>error.status >= 500\<close> is false for \<open>undefined\<close>, and
  \<open>includes(error.code)\<close> is false for \<open>undefined\<close>.
\<close>

definition isRetryableError :: "js_error \<Rightarrow> bool" where
  "isRetryableError error =
     ((case status error of None \<Rightarrow> False | Some s \<Rightarrow> s \<ge> 500) \<or>
      (case code error of
         None \<Rightarrow> False
       | Some c \<Rightarrow> c \<in> set [''ECONNRESET'', ''ETIMEDOUT'', ''ENOTFOUND'', ''EAI_AGAIN'']))"

text \<open>
  \<open>_makeRequestWithRetry\<close>. \<open>net i\<close> is what the network does to attempt \<open>i\<close> (counted
  from 0). The run records the value returned (\<open>Inr None\<close> is the \<open>undefined\<close> of a loop
  that never ran) or the error thrown, the delays handed to \<open>setTimeout\<close> in order, and the
  number of requests made.
\<close>

record 'r retry_run =
  result :: "js_error + 'r parsed option"
  slept :: "nat list"
  attempts :: nat

function makeRequestWithRetry_from ::
  "string option \<Rightarrow> (nat \<Rightarrow> 'r transport) \<Rightarrow> nat \<Rightarrow> nat \<Rightarrow> nat \<Rightarrow> nat list \<Rightarrow> 'r retry_run"
where
  "makeRequestWithRetry_from apiKey net retries delay i sl =
     (if i < retries then
        (case makeRequest apiKey (net i) of
           Inr response \<Rightarrow> \<lparr>result = Inr (Some response), slept = sl, attempts = Suc i\<rparr>
         | Inl error \<Rightarrow>
             if isRetryableError error \<and> i < retries - 1
             then makeRequestWithRetry_from apiKey net retries delay (Suc i)
                    (sl @ [delay * 2 ^ i])
             else \<lparr>result = Inl error, slept = sl, attempts = Suc i\<rparr>)
      else \<lparr>result = Inr None, slept = sl, attempts = i\<rparr>)"
  by pat_completeness auto
termination
  by (relation "measure (\<lambda>(apiKey, net, retries, delay, i, sl). retries - i)") auto

definition makeRequestWithRetry ::
  "string option \<Rightarrow> (nat \<Rightarrow> 'r transport) \<Rightarrow> nat \<Rightarrow> nat \<Rightarrow> 'r retry_run" where
  "makeRequestWithRetry apiKey net retries delay =
     makeRequestWithRetry_from apiKey net retries delay 0 []"

subsection \<open>The request scheduler\<close>

text \<open>
  A queued request is the object \<open>{endpoint, method, body, resolve, reject}\<close>; the two
  callbacks belong to the promise that \<open>_scheduleRequest\<close> returned, which is named here
  by a number, so that two requests with the same content stay apart (\<open>http_method\<close> is
  the property \<open>method\<close>). Then the fields of the client that the scheduler uses.
\<close>

record request =
  endpoint :: string
  http_method :: string
  body :: string
  promise :: nat

record client =
  timeout :: int
  maxConcurrentRequests :: int
  activeRequests :: int
  requestQueue :: "request list"

definition constructor :: "client" where
  "constructor =
     \<lparr>timeout = 1800000, maxConcurrentRequests = 4, activeRequests = 0, requestQueue = []\<rparr>"

text \<open>
  \<open>_processQueue\<close> starts at most one request: the head of the queue (\<open>shift\<close>). It
  returns the client and the request it handed to \<open>_makeRequestWithRetry\<close>, if any.
\<close>

definition processQueue :: "client \<Rightarrow> client \<times> request option" where
  "processQueue c =
     (if activeRequests c \<ge> maxConcurrentRequests c \<or> length (requestQueue c) = 0
      then (c, None)
      else
        (case requestQueue c of
           [] \<Rightarrow> (c, None)
         | q # rest \<Rightarrow>
             (c\<lparr>activeRequests := activeRequests c + 1, requestQueue := rest\<rparr>, Some q)))"

text \<open>\<open>_scheduleRequest\<close>: \<open>push\<close>, then \<open>_processQueue\<close>.\<close>

definition scheduleRequest :: "request \<Rightarrow> client \<Rightarrow> client \<times> request option" where
  "scheduleRequest q c = processQueue (c\<lparr>requestQueue := requestQueue c @ [q]\<rparr>)"

text \<open>The \<open>finally\<close> callback of a started request: decrement, then \<open>_processQueue\<close>.\<close>

definition finishRequest :: "client \<Rightarrow> client \<times> request option" where
  "finishRequest c = processQueue (c\<lparr>activeRequests := activeRequests c - 1\<rparr>)"

text \<open>
  Executions of the scheduler. Node runs one callback at a time, so an execution is a
  sequence of events: a caller schedules a request, or the promise of a started request
  settles and its \<open>finally\<close> callback runs. Beside the client, the state keeps the
  requests whose promise is pending (\<open>in_flight\<close>) and every start so far, in order
  (\<open>started\<close>). Only a request in flight can settle; another \<open>Settle\<close> changes nothing.
\<close>

record scheduler =
  client :: "client"
  in_flight :: "request list"
  started :: "request list"

datatype event = Schedule request | Settle request

definition launch :: "client \<times> request option \<Rightarrow> scheduler \<Rightarrow> scheduler" where
  "launch r s =
     (case snd r of
        None \<Rightarrow> s\<lparr>client := fst r\<rparr>
      | Some q \<Rightarrow> s\<lparr>client := fst r, in_flight := in_flight s @ [q], started := started s @ [q]\<rparr>)"

fun step :: "scheduler \<Rightarrow> event \<Rightarrow> scheduler" where
  "step s (Schedule q) = launch (scheduleRequest q (client s)) s"
| "step s (Settle q) =
     (if q \<in> set (in_flight s)
      then launch (finishRequest (client s)) (s\<lparr>in_flight := remove1 q (in_flight s)\<rparr>)
      else s)"

definition initial :: "scheduler" where
  "initial = \<lparr>client = constructor, in_flight = [], started = []\<rparr>"

definition run :: "event list \<Rightarrow> scheduler" where
  "run evs = foldl step initial evs"

text \<open>The requests scheduled by a sequence of events, in the order of the calls.\<close>

fun scheduled :: "event list \<Rightarrow> request list" where
  "scheduled [] = []"
| "scheduled (Schedule q # evs) = q # scheduled evs"
| "scheduled (Settle q # evs) = scheduled evs"

text \<open>The invariant of the scheduler that the executions preserve.\<close>

definition sched_inv :: "scheduler \<Rightarrow> bool" where
  "sched_inv s =
     (maxConcurrentRequests (client s) = 4
      \<and> activeRequests (client s) = int (length (in_flight s))
      \<and> activeRequests (client s) \<le> 4
      \<and> (requestQueue (client s) \<noteq> [] \<longrightarrow> activeRequests (client s) = 4))"

text \<open>A request to \<open>/v1/messages\<close>, as \<open>call\<close> schedules it, for promise \<open>n\<close>.\<close>

definition messages_request :: "nat \<Rightarrow> request" where
  "messages_request n =
     \<lparr>endpoint = ''/v1/messages'', http_method = ''POST'', body = ''{}'', promise = n\<rparr>"

section \<open>productionAgentFactory.js and pipelineApi.js: running a pipeline\<close>

subsection \<open>Fallible steps over a state\<close>

text \<open>
  An \<open>async\<close> method is a function from the state before to its outcome and the state
  after: \<open>Inr v\<close> when it returns \<open>v\<close>, \<open>Inl error\<close> when it throws. \<open>andThen\<close> is
  sequencing (a throw skips the rest), \<open>finally_do\<close> is \<open>try { m } finally { c }\<close>: \<open>c\<close> runs in
  either case, and if it throws, its error replaces the outcome of \<open>m\<close>.
\<close>

type_synonym ('s, 'a) action = "'s \<Rightarrow> (js_error + 'a) \<times> 's"

definition succeed :: "'a \<Rightarrow> ('s, 'a) action" where
  "succeed v s = (Inr v, s)"

definition throw :: "js_error \<Rightarrow> ('s, 'a) action" where
  "throw error s = (Inl error, s)"

definition andThen :: "('s, 'a) action \<Rightarrow> ('a \<Rightarrow> ('s, 'b) action) \<Rightarrow> ('s, 'b) action" where
  "andThen m f s = (case m s of (Inl error, s') \<Rightarrow> (Inl error, s') | (Inr v, s') \<Rightarrow> f v s')"

definition finally_do :: "('s, 'a) action \<Rightarrow> ('s, unit) action \<Rightarrow> ('s, 'a) action" where
  "finally_do m c s =
     (case m s of
        (r, s') \<Rightarrow> (case c s' of (Inl error, s'') \<Rightarrow> (Inl error, s'') | (Inr u, s'') \<Rightarrow> (r, s'')))"

text \<open>A call into a library whose outcome the environment decides.\<close>

definition external :: "js_error option \<Rightarrow> ('s, unit) action" where
  "external fault = (case fault of None \<Rightarrow> succeed () | Some error \<Rightarrow> throw error)"

definition external_value :: "js_error + 'a \<Rightarrow> ('s, 'a) action" where
  "external_value r = (case r of Inl error \<Rightarrow> throw error | Inr v \<Rightarrow> succeed v)"

subsection \<open>The stores and the environment\<close>

text \<open>
  The three stores, as far as \<open>clearAllDatabases\<close> touches them: the tables of the
  relational store with their rows, the keys of the current database of the cache and
  queue broker, and the nodes and relationships of the configured graph database.
\<close>

type_synonym tables = "string \<rightharpoonup> string list list"

record stores =
  sqlite :: tables
  redis :: "(string \<times> string) list"
  neo4j_nodes :: "nat list"
  neo4j_relationships :: "(nat \<times> string \<times> nat) list"

text \<open>
  Everything outside the two files is the environment: the clock, and for each call
  into a library or into a module that is not part of the sources at hand, whether it
  throws and what it returns. The agents' \<open>run\<close> methods may change the stores in any way.
  \<open>initializeDb\<close> is \<open>DatabaseManager.initializeDb\<close>, which may create tables.
\<close>

record world =
  clock :: "nat \<Rightarrow> nat"
  load_factory :: "js_error option"
  new_DatabaseManager :: "js_error option"
  initializeDb :: "tables \<Rightarrow> js_error + tables"
  queue_connect :: "js_error option"
  exec_fault :: "string \<Rightarrow> js_error option"
  flushdb_fault :: "js_error option"
  detach_delete_fault :: "js_error option"
  clear_session_close :: "js_error option"
  sqlite_probe :: "js_error option"
  anthropic_probe :: "js_error + bool"
  neo4j_probe :: "js_error option"
  redis_probe :: "js_error option"
  entityScout_run :: "stores \<Rightarrow> (js_error + unit) \<times> stores"
  count_entity_reports :: "js_error + int"
  count_files :: "js_error + int"
  graphBuilder_run :: "stores \<Rightarrow> (js_error + unit) \<times> stores"
  load_neo4jDriver :: "js_error option"
  count_nodes :: "js_error + int"
  count_relationships :: "js_error + int"
  graph_session_close :: "js_error option"
  relationshipResolver_run :: "stores \<Rightarrow> (js_error + unit) \<times> stores"
  count_final_relationships :: "js_error + int"
  final_session_close :: "js_error option"
  closeConnections_fault :: "js_error option"
  closeCacheClient_fault :: "js_error option"
  driver_close_fault :: "js_error option"
  db_close_fault :: "js_error option"

subsection \<open>ProductionAgentFactory\<close>

text \<open>
  The factory object: the keys of its two maps, and for each dependency whether the
  field holds an object (\<open>True\<close>) or is still \<open>null\<close>.
\<close>

record factory =
  agents :: "string list"
  workers :: "string list"
  dbManager :: bool
  queueManager :: bool
  cacheClient :: bool
  llmClient :: bool
  neo4jDriver :: bool

definition new_factory :: factory where
  "new_factory =
     \<lparr>agents = [], workers = [], dbManager = False, queueManager = False,
      cacheClient = False, llmClient = False, neo4jDriver = False\<rparr>"

record backend =
  fac :: factory
  stores :: stores

definition set_fac :: "(factory \<Rightarrow> factory) \<Rightarrow> (backend, unit) action" where
  "set_fac f b = (Inr (), b\<lparr>fac := f (fac b)\<rparr>)"

text \<open>\<open>initialize\<close>: each field is assigned before the call that may throw is made on it.\<close>

definition run_initializeDb :: "world \<Rightarrow> (backend, unit) action" where
  "run_initializeDb w b =
     (case initializeDb w (sqlite (stores b)) of
        Inl error \<Rightarrow> (Inl error, b)
      | Inr t \<Rightarrow> (Inr (), b\<lparr>stores := (stores b)\<lparr>sqlite := t\<rparr>\<rparr>))"

definition initialize :: "world \<Rightarrow> (backend, unit) action" where
  "initialize w =
     andThen (external (new_DatabaseManager w)) (\<lambda>u.
     andThen (set_fac (\<lambda>f. f\<lparr>dbManager := True\<rparr>)) (\<lambda>u.
     andThen (run_initializeDb w) (\<lambda>u.
     andThen (set_fac (\<lambda>f. f\<lparr>queueManager := True\<rparr>)) (\<lambda>u.
     andThen (external (queue_connect w)) (\<lambda>u.
     set_fac (\<lambda>f. f\<lparr>cacheClient := True, llmClient := True, neo4jDriver := True\<rparr>))))))"

definition ensure_initialized :: "world \<Rightarrow> (backend, unit) action" where
  "ensure_initialized w b = (if \<not> dbManager (fac b) then initialize w b else succeed () b)"

text \<open>
  \<open>db.exec('DELETE FROM t')\<close>: the statement fails when the table does not exist, or for
  a reason of the environment's; otherwise the table is left with no rows.
\<close>

definition delete_from :: "world \<Rightarrow> string \<Rightarrow> (backend, unit) action" where
  "delete_from w t b =
     (case exec_fault w t of
        Some error \<Rightarrow> (Inl error, b)
      | None \<Rightarrow>
          (case sqlite (stores b) t of
             None \<Rightarrow> (Inl (new_Error (''no such table: '' @ t)), b)
           | Some rows \<Rightarrow> (Inr (), b\<lparr>stores := (stores b)\<lparr>sqlite := (sqlite (stores b))(t \<mapsto> [])\<rparr>\<rparr>)))"

text \<open>Calling a method on a field that is still \<open>null\<close> throws a \<open>TypeError\<close>.\<close>

definition need :: "(factory \<Rightarrow> bool) \<Rightarrow> string \<Rightarrow> (backend, unit) action" where
  "need field name b =
     (if field (fac b) then succeed () b
      else throw (new_Error (''Cannot read properties of null (reading '' @ name @ '')'')) b)"

definition flushdb :: "world \<Rightarrow> (backend, unit) action" where
  "flushdb w b =
     (case flushdb_fault w of
        Some error \<Rightarrow> (Inl error, b)
      | None \<Rightarrow> (Inr (), b\<lparr>stores := (stores b)\<lparr>redis := []\<rparr>\<rparr>))"

text \<open>\<open>session.run('MATCH (n) DETACH DELETE n')\<close>: every node goes, with its relationships.\<close>

definition detach_delete_all :: "world \<Rightarrow> (backend, unit) action" where
  "detach_delete_all w b =
     (case detach_delete_fault w of
        Some error \<Rightarrow> (Inl error, b)
      | None \<Rightarrow> (Inr (), b\<lparr>stores := (stores b)\<lparr>neo4j_nodes := [], neo4j_relationships := []\<rparr>\<rparr>))"

definition clearAllDatabases :: "world \<Rightarrow> (backend, unit) action" where
  "clearAllDatabases w =
     andThen (ensure_initialized w) (\<lambda>u.
     andThen (delete_from w ''relationships'') (\<lambda>u.
     andThen (delete_from w ''relationship_evidence'') (\<lambda>u.
     andThen (delete_from w ''pois'') (\<lambda>u.
     andThen (delete_from w ''files'') (\<lambda>u.
     andThen (delete_from w ''directory_summaries'') (\<lambda>u.
     andThen (delete_from w ''outbox'') (\<lambda>u.
     andThen (need cacheClient ''flushdb'') (\<lambda>u.
     andThen (flushdb w) (\<lambda>u.
     andThen (need neo4jDriver ''session'') (\<lambda>u.
     finally_do (detach_delete_all w) (external (clear_session_close w))))))))))))"

text \<open>
  \<open>testConnections\<close>. The result object starts as
  \<open>{sqlite: false, anthropic: false, neo4j: false, redis: false}\<close>; each probe sits in its
  own \<open>try\<close>, whose \<open>catch\<close> only logs. A property that the object lacks reads as \<open>None\<close>.
\<close>

type_synonym connections = "string \<rightharpoonup> bool"

definition probe :: "bool \<Rightarrow> js_error option \<Rightarrow> string \<Rightarrow> connections \<Rightarrow> connections" where
  "probe present fault key results =
     (if present \<and> fault = None then results(key \<mapsto> True) else results)"

definition probe_anthropic :: "bool \<Rightarrow> js_error + bool \<Rightarrow> connections \<Rightarrow> connections" where
  "probe_anthropic present r results =
     (if present then (case r of Inl error \<Rightarrow> results | Inr ok \<Rightarrow> results(''anthropic'' \<mapsto> ok))
      else results)"

definition testConnections :: "world \<Rightarrow> (backend, connections) action" where
  "testConnections w =
     andThen (ensure_initialized w) (\<lambda>u b.
       (let results = [''sqlite'' \<mapsto> False, ''anthropic'' \<mapsto> False, ''neo4j'' \<mapsto> False,
                       ''redis'' \<mapsto> False];
            results = probe (dbManager (fac b)) (sqlite_probe w) ''sqlite'' results;
            results = probe_anthropic (llmClient (fac b)) (anthropic_probe w) results;
            results = probe (neo4jDriver (fac b)) (neo4j_probe w) ''neo4j'' results;
            results = probe (cacheClient (fac b)) (redis_probe w) ''redis'' results
        in (Inr results, b)))"

text \<open>The three getters look an agent up in the \<open>agents\<close> map and throw when it is not there.\<close>

definition get_agent :: "string \<Rightarrow> string \<Rightarrow> (backend, unit) action" where
  "get_agent key label b =
     (if key \<in> set (agents (fac b)) then succeed () b
      else throw (new_Error (label @ '' not initialized'')) b)"

definition createEntityScout :: "(backend, unit) action" where
  "createEntityScout = get_agent ''entityScout'' ''EntityScout''"

definition createGraphBuilder :: "(backend, unit) action" where
  "createGraphBuilder = get_agent ''graphBuilder'' ''GraphBuilder''"

definition createRelationshipResolver :: "(backend, unit) action" where
  "createRelationshipResolver = get_agent ''relationshipResolver'' ''RelationshipResolver''"

text \<open>
  \<open>cleanup\<close>: the dependencies that are set are closed in turn, the two maps are
  cleared, and the \<open>catch\<close> logs and throws the error again.
\<close>

definition close_if :: "(factory \<Rightarrow> bool) \<Rightarrow> js_error option \<Rightarrow> (backend, unit) action" where
  "close_if field fault b = (if field (fac b) then external fault b else succeed () b)"

definition cleanup :: "world \<Rightarrow> (backend, unit) action" where
  "cleanup w =
     andThen (close_if queueManager (closeConnections_fault w)) (\<lambda>u.
     andThen (close_if cacheClient (closeCacheClient_fault w)) (\<lambda>u.
     andThen (close_if neo4jDriver (driver_close_fault w)) (\<lambda>u.
     andThen (close_if dbManager (db_close_fault w)) (\<lambda>u.
     set_fac (\<lambda>f. f\<lparr>agents := [], workers := []\<rparr>)))))"

subsection \<open>pipelineApi: the status records\<close>

text \<open>
  A status record is a JavaScript object. Its own properties (\<open>status\<close>, \<open>phase\<close>,
  \<open>lastUpdate\<close>, \<open>error\<close>, \<open>endTime\<close>, ...) are kept in \<open>props\<close>, the nested \<open>progress\<close>
  object and the \<open>logs\<close> array apart; no caller assigns the properties \<open>progress\<close> or
  \<open>logs\<close> themselves. A time stamp is a reading of the clock. The pictographs that open
  the log texts of the source are left out.
\<close>

datatype jval = VStr string | VNum int | VTime nat

record pipeline =
  props :: "string \<rightharpoonup> jval"
  progress :: "string \<rightharpoonup> (string \<rightharpoonup> jval)"
  logs :: "(nat \<times> string) list"

record api =
  activePipelines :: "string \<rightharpoonup> pipeline"
  clock_reads :: nat

text \<open>\<open>new Date().toISOString()\<close>: the next reading of the clock.\<close>

definition now :: "world \<Rightarrow> api \<Rightarrow> nat \<times> api" where
  "now w a = (clock w (clock_reads a), a\<lparr>clock_reads := Suc (clock_reads a)\<rparr>)"

text \<open>
  One assignment of \<open>updatePipelineStatus\<close>. A key with a dot is split at the dots and
  its first two parts name the property of \<open>progress\<close> and the property inside it.
\<close>

definition outer_part :: "string \<Rightarrow> string" where
  "outer_part key = takeWhile (\<lambda>c. c \<noteq> CHR ''.'') key"

definition inner_part :: "string \<Rightarrow> string" where
  "inner_part key =
     takeWhile (\<lambda>c. c \<noteq> CHR ''.'') (drop 1 (dropWhile (\<lambda>c. c \<noteq> CHR ''.'') key))"

definition apply_update :: "string \<times> jval \<Rightarrow> pipeline \<Rightarrow> pipeline" where
  "apply_update kv p =
     (let key = fst kv; v = snd kv in
      if CHR ''.'' \<in> set key then
        (let outer = outer_part key; inner = inner_part key;
             obj = (case progress p outer of None \<Rightarrow> Map.empty | Some obj \<Rightarrow> obj)
         in p\<lparr>progress := (progress p)(outer \<mapsto> obj(inner \<mapsto> v))\<rparr>)
      else p\<lparr>props := (props p)(key \<mapsto> v)\<rparr>)"

definition updatePipelineStatus ::
  "world \<Rightarrow> string \<Rightarrow> (string \<times> jval) list \<Rightarrow> string \<Rightarrow> api \<Rightarrow> api" where
  "updatePipelineStatus w pipelineId updates logMessage a =
     (case activePipelines a pipelineId of
        None \<Rightarrow> a
      | Some pipeline \<Rightarrow>
          (let p1 = fold apply_update updates pipeline;
               (t1, a1) = now w a;
               p2 = p1\<lparr>props := (props p1)(''lastUpdate'' \<mapsto> VTime t1)\<rparr>;
               (p3, a2) =
                  (if logMessage \<noteq> []
                   then (let (t2, a') = now w a1 in (p2\<lparr>logs := logs p2 @ [(t2, logMessage)]\<rparr>, a'))
                   else (p2, a1))
           in a2\<lparr>activePipelines := (activePipelines a2)(pipelineId \<mapsto> p3)\<rparr>))"

text \<open>The record that \<open>startPipelineAsync\<close> registers first.\<close>

definition register_pipeline :: "world \<Rightarrow> string \<Rightarrow> string \<Rightarrow> api \<Rightarrow> api" where
  "register_pipeline w pipelineId targetDirectory a =
     (let (startTime, a1) = now w a;
          (lastUpdate, a2) = now w a1;
          pipelineStatus =
            \<lparr>props =
               [''pipelineId'' \<mapsto> VStr pipelineId,
                ''targetDirectory'' \<mapsto> VStr targetDirectory,
                ''status'' \<mapsto> VStr ''starting'',
                ''phase'' \<mapsto> VStr ''initialization'',
                ''startTime'' \<mapsto> VTime startTime,
                ''lastUpdate'' \<mapsto> VTime lastUpdate],
             progress =
               [''entityScout'' \<mapsto>
                  [''status'' \<mapsto> VStr ''pending'', ''filesProcessed'' \<mapsto> VNum 0,
                   ''entitiesFound'' \<mapsto> VNum 0],
                ''graphBuilder'' \<mapsto>
                  [''status'' \<mapsto> VStr ''pending'', ''nodesCreated'' \<mapsto> VNum 0,
                   ''relationshipsCreated'' \<mapsto> VNum 0],
                ''relationshipResolver'' \<mapsto>
                  [''status'' \<mapsto> VStr ''pending'', ''relationshipsResolved'' \<mapsto> VNum 0,
                   ''confidenceScore'' \<mapsto> VNum 0]],
             logs = []\<rparr>
      in a2\<lparr>activePipelines := (activePipelines a2)(pipelineId \<mapsto> pipelineStatus)\<rparr>)"

subsection \<open>pipelineApi: startPipelineAsync\<close>

text \<open>The state of a run once the factory exists: the registry, the factory, the stores.\<close>

record run_state =
  registry :: api
  services :: backend

definition update_status ::
  "world \<Rightarrow> string \<Rightarrow> (string \<times> jval) list \<Rightarrow> string \<Rightarrow> (run_state, unit) action" where
  "update_status w pipelineId updates logMessage s =
     (Inr (), s\<lparr>registry := updatePipelineStatus w pipelineId updates logMessage (registry s)\<rparr>)"

definition on_services :: "(backend, 'a) action \<Rightarrow> (run_state, 'a) action" where
  "on_services m s = (case m (services s) of (r, b) \<Rightarrow> (r, s\<lparr>services := b\<rparr>))"

definition on_stores ::
  "(stores \<Rightarrow> (js_error + unit) \<times> stores) \<Rightarrow> (run_state, unit) action" where
  "on_stores m s =
     (case m (stores (services s)) of
        (r, st) \<Rightarrow> (r, s\<lparr>services := (services s)\<lparr>stores := st\<rparr>\<rparr>))"

text \<open>JavaScript truthiness of a property of the connections object.\<close>

definition connected :: "bool option \<Rightarrow> bool" where
  "connected v = (v = Some True)"

definition clear_phase :: "world \<Rightarrow> string \<Rightarrow> (run_state, unit) action" where
  "clear_phase w pipelineId =
     andThen (update_status w pipelineId
                [(''phase'', VStr ''clearing_databases''), (''status'', VStr ''running'')]
                ''Phase 1: Clearing databases for fresh start...'') (\<lambda>u.
     andThen (on_services (clearAllDatabases w)) (\<lambda>u.
     update_status w pipelineId [] ''Databases cleared and schema initialized''))"

definition connections_phase :: "world \<Rightarrow> string \<Rightarrow> (run_state, unit) action" where
  "connections_phase w pipelineId =
     andThen (update_status w pipelineId [(''phase'', VStr ''testing_connections'')]
                ''Phase 2: Testing database and API connections...'') (\<lambda>u.
     andThen (on_services (testConnections w)) (\<lambda>connections.
     andThen (if \<not> connected (connections ''sqlite'') \<or> \<not> connected (connections ''deepseek'')
                 \<or> \<not> connected (connections ''neo4j'')
              then throw (new_Error ''Required connections failed'')
              else succeed ()) (\<lambda>u.
     update_status w pipelineId [] ''All connections verified'')))"

definition entity_scout_phase :: "world \<Rightarrow> string \<Rightarrow> string \<Rightarrow> (run_state, unit) action" where
  "entity_scout_phase w pipelineId targetDirectory =
     andThen (update_status w pipelineId
                [(''phase'', VStr ''entity_scout''),
                 (''progress.entityScout.status'', VStr ''running'')]
                (''Phase 3: Starting EntityScout analysis of '' @ targetDirectory @ ''...'')) (\<lambda>u.
     andThen (on_services createEntityScout) (\<lambda>u.
     andThen (on_stores (entityScout_run w)) (\<lambda>u.
     andThen (on_services (need dbManager ''getDb'')) (\<lambda>u.
     andThen (external_value (count_entity_reports w)) (\<lambda>entityReports.
     andThen (external_value (count_files w)) (\<lambda>totalFiles.
     update_status w pipelineId
       [(''progress.entityScout.status'', VStr ''completed''),
        (''progress.entityScout.filesProcessed'', VNum totalFiles),
        (''progress.entityScout.entitiesFound'', VNum entityReports)]
       (''Phase 3 Complete: Processed '' @ show_int totalFiles @ '' files, found '' @
        show_int entityReports @ '' entities'')))))))"

definition graph_builder_phase :: "world \<Rightarrow> string \<Rightarrow> (run_state, unit) action" where
  "graph_builder_phase w pipelineId =
     andThen (update_status w pipelineId
                [(''phase'', VStr ''graph_builder''),
                 (''progress.graphBuilder.status'', VStr ''running'')]
                ''Phase 4: Starting GraphBuilder to create knowledge graph...'') (\<lambda>u.
     andThen (on_services createGraphBuilder) (\<lambda>u.
     andThen (on_stores (graphBuilder_run w)) (\<lambda>u.
     andThen (external (load_neo4jDriver w)) (\<lambda>u.
     finally_do
       (andThen (external_value (count_nodes w)) (\<lambda>nodeCount.
        andThen (external_value (count_relationships w)) (\<lambda>relationshipCount.
        update_status w pipelineId
          [(''progress.graphBuilder.status'', VStr ''completed''),
           (''progress.graphBuilder.nodesCreated'', VNum nodeCount),
           (''progress.graphBuilder.relationshipsCreated'', VNum relationshipCount)]
          (''Phase 4 Complete: Created '' @ show_int nodeCount @ '' nodes and '' @
           show_int relationshipCount @ '' relationships''))))
       (external (graph_session_close w))))))"

definition relationship_resolver_phase :: "world \<Rightarrow> string \<Rightarrow> (run_state, unit) action" where
  "relationship_resolver_phase w pipelineId =
     andThen (update_status w pipelineId
                [(''phase'', VStr ''relationship_resolver''),
                 (''progress.relationshipResolver.status'', VStr ''running'')]
                ''Phase 5: Starting RelationshipResolver for cognitive triangulation...'') (\<lambda>u.
     andThen (on_services createRelationshipResolver) (\<lambda>u.
     andThen (on_stores (relationshipResolver_run w)) (\<lambda>u.
     finally_do
       (andThen (external_value (count_final_relationships w)) (\<lambda>finalRelationshipCount.
        update_status w pipelineId
          [(''progress.relationshipResolver.status'', VStr ''completed''),
           (''progress.relationshipResolver.relationshipsResolved'', VNum finalRelationshipCount),
           (''progress.relationshipResolver.confidenceScore'', VNum 95)]
          (''Phase 5 Complete: Resolved '' @ show_int finalRelationshipCount @
           '' total relationships with cognitive triangulation'')))
       (external (final_session_close w)))))"

definition completed_update :: "world \<Rightarrow> string \<Rightarrow> (run_state, unit) action" where
  "completed_update w pipelineId s =
     (let (endTime, a) = now w (registry s)
      in update_status w pipelineId
           [(''status'', VStr ''completed''), (''phase'', VStr ''completed''),
            (''endTime'', VTime endTime)]
           ''Cognitive triangulation pipeline completed successfully!''
           (s\<lparr>registry := a\<rparr>))"

text \<open>The body of the \<open>try\<close> block, after the factory has been made.\<close>

definition try_block :: "world \<Rightarrow> string \<Rightarrow> string \<Rightarrow> (run_state, unit) action" where
  "try_block w pipelineId targetDirectory =
     andThen (clear_phase w pipelineId) (\<lambda>u.
     andThen (connections_phase w pipelineId) (\<lambda>u.
     andThen (entity_scout_phase w pipelineId targetDirectory) (\<lambda>u.
     andThen (graph_builder_phase w pipelineId) (\<lambda>u.
     andThen (relationship_resolver_phase w pipelineId) (\<lambda>u.
     completed_update w pipelineId)))))"

text \<open>The \<open>catch\<close> block.\<close>

definition report_failure :: "world \<Rightarrow> string \<Rightarrow> js_error \<Rightarrow> api \<Rightarrow> api" where
  "report_failure w pipelineId error a =
     (let (endTime, a1) = now w a
      in updatePipelineStatus w pipelineId
           [(''status'', VStr ''failed''), (''phase'', VStr ''failed''),
            (''error'', VStr (message error)), (''endTime'', VTime endTime)]
           (''Pipeline failed: '' @ message error) a1)"

text \<open>
  \<open>startPipelineAsync\<close>: the outcome of the call (\<open>Inl\<close> when the promise rejects), the
  registry and the stores afterwards. When loading or constructing the factory throws,
  \<open>factory\<close> is still \<open>undefined\<close> in the \<open>finally\<close> block and nothing is cleaned up.
\<close>

definition startPipelineAsync ::
  "world \<Rightarrow> string \<Rightarrow> string \<Rightarrow> api \<Rightarrow> stores \<Rightarrow> (js_error + unit) \<times> api \<times> stores" where
  "startPipelineAsync w pipelineId targetDirectory a st =
     (let a1 = register_pipeline w pipelineId targetDirectory a in
      case load_factory w of
        Some error \<Rightarrow> (Inr (), report_failure w pipelineId error a1, st)
      | None \<Rightarrow>
          (let s1 = \<lparr>registry = a1, services = \<lparr>fac = new_factory, stores = st\<rparr>\<rparr>;
               (r, s2) = try_block w pipelineId targetDirectory s1;
               a3 = (case r of
                       Inl error \<Rightarrow> report_failure w pipelineId error (registry s2)
                     | Inr u \<Rightarrow> registry s2);
               (rc, b4) = cleanup w (services s2)
           in (rc, a3, stores b4)))"

text \<open>Reading a property of the status record of a pipeline.\<close>

definition field_of :: "api \<Rightarrow> string \<Rightarrow> string \<Rightarrow> jval option" where
  "field_of a pipelineId key =
     (case activePipelines a pipelineId of None \<Rightarrow> None | Some p \<Rightarrow> props p key)"

text \<open>A pipeline that has a status record, and steps that never drop it.\<close>

definition registered :: "api \<Rightarrow> string \<Rightarrow> bool" where
  "registered a pipelineId = (activePipelines a pipelineId \<noteq> None)"

definition keeps :: "string \<Rightarrow> (run_state, 'a) action \<Rightarrow> bool" where
  "keeps pipelineId m =
     (\<forall>s. registered (registry s) pipelineId \<longrightarrow> registered (registry (snd (m s))) pipelineId)"

text \<open>
  An environment in which every call succeeds and every probe answers, a variant whose
  broker refuses the flush, and stores with the six tables and some content.
\<close>

definition quiet_world :: world where
  "quiet_world =
     \<lparr>clock = (\<lambda>n. 1000 + n),
      load_factory = None,
      new_DatabaseManager = None,
      initializeDb = (\<lambda>t. Inr t),
      queue_connect = None,
      exec_fault = (\<lambda>t. None),
      flushdb_fault = None,
      detach_delete_fault = None,
      clear_session_close = None,
      sqlite_probe = None,
      anthropic_probe = Inr True,
      neo4j_probe = None,
      redis_probe = None,
      entityScout_run = (\<lambda>st. (Inr (), st)),
      count_entity_reports = Inr 0,
      count_files = Inr 0,
      graphBuilder_run = (\<lambda>st. (Inr (), st)),
      load_neo4jDriver = None,
      count_nodes = Inr 0,
      count_relationships = Inr 0,
      graph_session_close = None,
      relationshipResolver_run = (\<lambda>st. (Inr (), st)),
      count_final_relationships = Inr 0,
      final_session_close = None,
      closeConnections_fault = None,
      closeCacheClient_fault = None,
      driver_close_fault = None,
      db_close_fault = None\<rparr>"


definition used_stores :: stores where
  "used_stores =
     \<lparr>sqlite =
        [''relationships'' \<mapsto> [[''1'', ''a'', ''b'', ''calls'']],
         ''relationship_evidence'' \<mapsto> [[''1'', ''a'', ''b'', ''calls'', ''intra_file'']],
         ''pois'' \<mapsto> [[''1'', ''a''], [''2'', ''b'']],
         ''files'' \<mapsto> [[''1'', ''a.js'']],
         ''directory_summaries'' \<mapsto> [],
         ''outbox'' \<mapsto> [[''1'', ''file-analysis-queue'']]],
      redis = [(''bull:file-analysis-queue:id'', ''7'')],
      neo4j_nodes = [1, 2],
      neo4j_relationships = [(1, ''CALLS'', 2)]\<rparr>"

definition no_pipelines :: api where
  "no_pipelines = \<lparr>activePipelines = Map.empty, clock_reads = 0\<rparr>"

text \<open>
  Three views of one call: the error thrown inside the \<open>try\<close> block, if any; the
  registry at the moment the \<open>try\<close> block is left; and the outcome of the \<open>finally\<close>
  block.
\<close>

definition first_state :: "world \<Rightarrow> string \<Rightarrow> string \<Rightarrow> api \<Rightarrow> stores \<Rightarrow> run_state" where
  "first_state w pipelineId targetDirectory a st =
     \<lparr>registry = register_pipeline w pipelineId targetDirectory a,
      services = \<lparr>fac = new_factory, stores = st\<rparr>\<rparr>"

definition thrown_in_try ::
  "world \<Rightarrow> string \<Rightarrow> string \<Rightarrow> api \<Rightarrow> stores \<Rightarrow> js_error option" where
  "thrown_in_try w pipelineId targetDirectory a st =
     (case load_factory w of
        Some error \<Rightarrow> Some error
      | None \<Rightarrow>
          (case fst (try_block w pipelineId targetDirectory
                       (first_state w pipelineId targetDirectory a st)) of
             Inl error \<Rightarrow> Some error
           | Inr u \<Rightarrow> None))"

definition registry_after_try :: "world \<Rightarrow> string \<Rightarrow> string \<Rightarrow> api \<Rightarrow> stores \<Rightarrow> api" where
  "registry_after_try w pipelineId targetDirectory a st =
     (case load_factory w of
        Some error \<Rightarrow> register_pipeline w pipelineId targetDirectory a
      | None \<Rightarrow>
          registry (snd (try_block w pipelineId targetDirectory
                           (first_state w pipelineId targetDirectory a st))))"


section \<open>Properties of the configuration module\<close>

subsection \<open>The exported object\<close>

lemma constantName_values:
  "constantName ''file-analysis-queue'' = ''FILE_ANALYSIS_QUEUE_QUEUE_NAME''"
  "constantName ''directory-aggregation-queue'' = ''DIRECTORY_AGGREGATION_QUEUE_QUEUE_NAME''"
  "constantName ''directory-resolution-queue'' = ''DIRECTORY_RESOLUTION_QUEUE_QUEUE_NAME''"
  "constantName ''relationship-resolution-queue'' = ''RELATIONSHIP_RESOLUTION_QUEUE_QUEUE_NAME''"
  "constantName ''reconciliation-queue'' = ''RECONCILIATION_QUEUE_QUEUE_NAME''"
  "constantName ''failed-jobs'' = ''FAILED_JOBS_QUEUE_NAME''"
  "constantName ''analysis-findings-queue'' = ''ANALYSIS_FINDINGS_QUEUE_QUEUE_NAME''"
  "constantName ''global-resolution-queue'' = ''GLOBAL_RESOLUTION_QUEUE_QUEUE_NAME''"
  "constantName ''relationship-validated-queue'' = ''RELATIONSHIP_VALIDATED_QUEUE_QUEUE_NAME''"
  by (simp_all add: constantName_def toUpperCase_char_def replace_hyphen_def)

text \<open>The nine assignments of the \<open>forEach\<close>, written out.\<close>

lemma add_queue_constants_unfold:
  "add_queue_constants (config_literal e) =
     (config_literal e)
       (''FILE_ANALYSIS_QUEUE_QUEUE_NAME'' \<mapsto> CStr ''file-analysis-queue'',
        ''DIRECTORY_AGGREGATION_QUEUE_QUEUE_NAME'' \<mapsto> CStr ''directory-aggregation-queue'',
        ''DIRECTORY_RESOLUTION_QUEUE_QUEUE_NAME'' \<mapsto> CStr ''directory-resolution-queue'',
        ''RELATIONSHIP_RESOLUTION_QUEUE_QUEUE_NAME'' \<mapsto> CStr ''relationship-resolution-queue'',
        ''RECONCILIATION_QUEUE_QUEUE_NAME'' \<mapsto> CStr ''reconciliation-queue'',
        ''FAILED_JOBS_QUEUE_NAME'' \<mapsto> CStr ''failed-jobs'',
        ''ANALYSIS_FINDINGS_QUEUE_QUEUE_NAME'' \<mapsto> CStr ''analysis-findings-queue'',
        ''GLOBAL_RESOLUTION_QUEUE_QUEUE_NAME'' \<mapsto> CStr ''global-resolution-queue'',
        ''RELATIONSHIP_VALIDATED_QUEUE_QUEUE_NAME'' \<mapsto> CStr ''relationship-validated-queue'')"
proof -
  have q: "config_literal e ''QUEUE_NAMES'' = Some (CList QUEUE_NAMES)"
    by (simp add: config_literal_def)
  show ?thesis
    unfolding add_queue_constants_def q
    by (simp only: QUEUE_NAMES_def fold_simps constantName_values option.case cval.case)
qed

lemma exported_static:
  "add_queue_constants (config_literal e) ''SQLITE_DB_PATH'' =
     Some (CStr (env_or e ''SQLITE_DB_PATH'' ''./db.sqlite''))"
  "add_queue_constants (config_literal e) ''NEO4J_URI'' =
     Some (CStr (env_or e ''NEO4J_URI'' ''bolt://localhost:7687''))"
  "add_queue_constants (config_literal e) ''NEO4J_USER'' =
     Some (CStr (env_or e ''NEO4J_USER'' ''neo4j''))"
  "add_queue_constants (config_literal e) ''NEO4J_PASSWORD'' =
     Some (CStr (env_or e ''NEO4J_PASSWORD'' ''password''))"
  "add_queue_constants (config_literal e) ''ANTHROPIC_API_KEY'' =
     map_option CStr (e ''ANTHROPIC_API_KEY'')"
  "add_queue_constants (config_literal e) ''REDIS_URL'' =
     Some (CStr (env_or e ''REDIS_URL'' ''redis://localhost:6379''))"
  "add_queue_constants (config_literal e) ''REDIS_PASSWORD'' =
     (case e ''REDIS_PASSWORD'' of
        None \<Rightarrow> None
      | Some s \<Rightarrow> if s \<noteq> [] then Some (CStr s) else None)"
  "add_queue_constants (config_literal e) ''INGESTOR_BATCH_SIZE'' =
     Some (CNum (int_or (parseInt (e ''INGESTOR_BATCH_SIZE'')) 100))"
  "add_queue_constants (config_literal e) ''INGESTOR_INTERVAL_MS'' =
     Some (CNum (int_or (parseInt (e ''INGESTOR_INTERVAL_MS'')) 10000))"
  "add_queue_constants (config_literal e) ''QUEUE_NAMES'' = Some (CList QUEUE_NAMES)"
  unfolding add_queue_constants_unfold by (simp_all add: config_literal_def)


subsection \<open>When the module exits\<close>

lemma env_or_nonempty: "d \<noteq> [] \<Longrightarrow> env_or e k d \<noteq> []"
  by (simp add: env_or_def split: option.splits)

lemma truthy_api_key: "truthy (map_option CStr (e k)) = (\<not> unset e k)"
  by (cases "e k") (simp_all add: unset_def)

lemma truthy_redis_password:
  "truthy (case e k of None \<Rightarrow> None | Some s \<Rightarrow> if s \<noteq> [] then Some (CStr s) else None) =
     (\<not> unset e k)"
  by (cases "e k") (simp_all add: unset_def)

lemma load_config_exit_iff:
  "load_config e =
     (if unset e ''ANTHROPIC_API_KEY'' \<or>
         (is_production e \<and>
            (unset e ''REDIS_PASSWORD'' \<or> env_or e ''NEO4J_PASSWORD'' ''password'' = ''password''))
      then Inl 1
      else Inr (add_queue_constants (config_literal e)))"
  by (simp add: load_config_def Let_def required_configs_def exported_static env_or_nonempty
      truthy_api_key truthy_redis_password)








text \<open>
  C7. In production mode the module exits with code 1, hence exports nothing, when the
  graph-store password is \<open>password\<close> (set so, or left to the default) and when the broker
  password is unset or empty.
\<close>

theorem production_password_rules:
  assumes "e ''NODE_ENV'' = Some ''production''"
    and "env_or e ''NEO4J_PASSWORD'' ''password'' = ''password'' \<or> unset e ''REDIS_PASSWORD''"
  shows "load_config e = Inl 1"
  using assms by (auto simp add: load_config_exit_iff is_production_def)

theorem production_password_rules_witness:
  "load_config [''NODE_ENV'' \<mapsto> ''production'', ''ANTHROPIC_API_KEY'' \<mapsto> ''sk-test'',
                ''REDIS_PASSWORD'' \<mapsto> ''r3dis''] = Inl 1
   \<and> load_config [''NODE_ENV'' \<mapsto> ''production'', ''ANTHROPIC_API_KEY'' \<mapsto> ''sk-test'',
                  ''NEO4J_PASSWORD'' \<mapsto> ''s3cret''] = Inl 1"
proof -
  have default_password:
    "load_config [''NODE_ENV'' \<mapsto> ''production'', ''ANTHROPIC_API_KEY'' \<mapsto> ''sk-test'',
                  ''REDIS_PASSWORD'' \<mapsto> ''r3dis''] = Inl 1"
    by (rule production_password_rules) (simp_all add: env_or_def)
  have no_broker_password:
    "load_config [''NODE_ENV'' \<mapsto> ''production'', ''ANTHROPIC_API_KEY'' \<mapsto> ''sk-test'',
                  ''NEO4J_PASSWORD'' \<mapsto> ''s3cret''] = Inl 1"
    by (rule production_password_rules) (simp_all add: unset_def)
  from default_password no_broker_password show ?thesis by simp
qed

text \<open>
  The same settings load outside production, and production loads once both passwords
  are set: the two exits above are due to the production rules alone.
\<close>

lemma production_rules_are_the_cause:
  "load_config [''ANTHROPIC_API_KEY'' \<mapsto> ''sk-test''] \<noteq> Inl 1"
  "load_config [''NODE_ENV'' \<mapsto> ''production'', ''ANTHROPIC_API_KEY'' \<mapsto> ''sk-test'',
                ''REDIS_PASSWORD'' \<mapsto> ''r3dis'', ''NEO4J_PASSWORD'' \<mapsto> ''s3cret''] \<noteq> Inl 1"
  by (simp_all add: load_config_exit_iff unset_def is_production_def env_or_def)

section \<open>Properties of the oracle client\<close>

subsection \<open>The retry loop, one iteration at a time\<close>

declare makeRequestWithRetry_from.simps [simp del]



lemma from_retry:
  "i < retries - 1 \<Longrightarrow> makeRequest apiKey (net i) = Inl error \<Longrightarrow> isRetryableError error \<Longrightarrow>
   makeRequestWithRetry_from apiKey net retries delay i sl =
     makeRequestWithRetry_from apiKey net retries delay (Suc i) (sl @ [delay * 2 ^ i])"
  by (subst makeRequestWithRetry_from.simps) simp

lemma from_throw:
  "i < retries \<Longrightarrow> makeRequest apiKey (net i) = Inl error \<Longrightarrow>
   \<not> (isRetryableError error \<and> i < retries - 1) \<Longrightarrow>
   makeRequestWithRetry_from apiKey net retries delay i sl =
     \<lparr>result = Inl error, slept = sl, attempts = Suc i\<rparr>"
  by (subst makeRequestWithRetry_from.simps) auto

subsection \<open>Which failures are retried\<close>

text \<open>
  While an attempt is left, a response with a status of 500 or more whose body parsed to
  a value other than \<open>null\<close> is retried after the backoff delay, and so is a socket error
  that carries one of the four connection codes.
\<close>

lemma retry_on_5xx_with_json_body:
  assumes "apiKey = Some k" and "k \<noteq> []" and "i < retries - 1"
    and "net i = Response statusCode (JsonValue d em)" and "500 \<le> statusCode"
  shows "makeRequestWithRetry_from apiKey net retries delay i sl =
           makeRequestWithRetry_from apiKey net retries delay (Suc i) (sl @ [delay * 2 ^ i])"
proof -
  obtain error where rejected: "makeRequest apiKey (net i) = Inl error"
    and st: "status error = Some statusCode"
    using assms by (simp add: makeRequest_def new_Error_def)
  from st assms(5) have "isRetryableError error"
    by (simp add: isRetryableError_def)
  with assms(3) rejected show ?thesis by (rule from_retry)
qed

lemma retry_on_connection_code:
  assumes "apiKey = Some k" and "k \<noteq> []" and "i < retries - 1"
    and "net i = SocketError error"
    and "code error = Some c"
    and "c \<in> {''ECONNRESET'', ''ETIMEDOUT'', ''ENOTFOUND'', ''EAI_AGAIN''}"
  shows "makeRequestWithRetry_from apiKey net retries delay i sl =
           makeRequestWithRetry_from apiKey net retries delay (Suc i) (sl @ [delay * 2 ^ i])"
proof -
  have rejected: "makeRequest apiKey (net i) = Inl error"
    using assms by (simp add: makeRequest_def)
  from assms(5,6) have "isRetryableError error"
    by (auto simp add: isRetryableError_def)
  with assms(3) rejected show ?thesis by (rule from_retry)
qed

text \<open>A response with a 4xx status is never retried, whatever its body.\<close>

lemma no_retry_on_4xx:
  assumes "i < retries" and "net i = Response statusCode b"
    and "400 \<le> statusCode" and "statusCode < 500"
  shows "\<exists>error. makeRequestWithRetry_from apiKey net retries delay i sl =
           \<lparr>result = Inl error, slept = sl, attempts = Suc i\<rparr>"
proof -
  have "\<exists>error. makeRequest apiKey (Response statusCode b) = Inl error
                \<and> \<not> isRetryableError error"
    using assms(3,4)
    by (cases b) (auto simp add: makeRequest_def new_Error_def isRetryableError_def)
  then obtain error where rejected: "makeRequest apiKey (net i) = Inl error"
    and final: "\<not> isRetryableError error"
    unfolding assms(2) by blast
  from from_throw [where net = net and i = i, OF assms(1) rejected] final show ?thesis by blast
qed

text \<open>
  The error of the \<open>timeout\<close> event, and the error of a body that does not parse, carry
  neither \<open>status\<close> nor \<open>code\<close>: both are thrown at once, at any attempt.
\<close>

lemma timeout_is_final:
  assumes "apiKey = Some k" and "k \<noteq> []" and "i < retries" and "net i = SocketTimeout"
  shows "makeRequestWithRetry_from apiKey net retries delay i sl =
           \<lparr>result = Inl (new_Error ''Request timeout''), slept = sl, attempts = Suc i\<rparr>"
proof -
  have rejected: "makeRequest apiKey (net i) = Inl (new_Error ''Request timeout'')"
    using assms by (simp add: makeRequest_def)
  have "\<not> isRetryableError (new_Error ''Request timeout'')"
    by (simp add: isRetryableError_def new_Error_def)
  with from_throw [where net = net and i = i, OF assms(3) rejected] show ?thesis by blast
qed

lemma unparseable_is_final:
  assumes "apiKey = Some k" and "k \<noteq> []" and "i < retries"
    and "net i = Response statusCode (Unparseable m)"
  shows "makeRequestWithRetry_from apiKey net retries delay i sl =
           \<lparr>result = Inl (new_Error (''Failed to parse response: '' @ m)), slept = sl,
            attempts = Suc i\<rparr>"
proof -
  have rejected:
    "makeRequest apiKey (net i) = Inl (new_Error (''Failed to parse response: '' @ m))"
    using assms by (simp add: makeRequest_def)
  have "\<not> isRetryableError (new_Error (''Failed to parse response: '' @ m))"
    by (simp add: isRetryableError_def new_Error_def)
  with from_throw [where net = net and i = i, OF assms(3) rejected] show ?thesis by blast
qed

text \<open>
  C2. The request timeout is 30 minutes and the \<open>timeout\<close> event destroys the request,
  but its error is not retryable: a first attempt that times out is the only attempt,
  even where the second would have succeeded.
\<close>

theorem request_timeout_thrown_at_first_attempt:
  "makeRequestWithRetry (Some ''sk-test'')
     (\<lambda>i. if i = 0 then SocketTimeout else Response 200 (JsonValue () None)) 5 2000 =
     \<lparr>result = Inl (new_Error ''Request timeout''), slept = [], attempts = 1\<rparr>
   \<and> \<not> isRetryableError (new_Error ''Request timeout'')
   \<and> timeout constructor = 30 * 60 * 1000"
  by (simp add: makeRequestWithRetry_def timeout_is_final isRetryableError_def new_Error_def
      constructor_def)

text \<open>
  C3. A 502 whose body is not JSON (a proxy's error page) is rejected as a parse failure
  without the status, and so thrown at the first attempt, although the status is 5xx and
  the second attempt would have succeeded.
\<close>

theorem unparseable_5xx_thrown_at_first_attempt:
  "makeRequestWithRetry (Some ''sk-test'')
     (\<lambda>i. if i = 0 then Response 502 (Unparseable ''Unexpected token < in JSON at position 0'')
          else Response 200 (JsonValue () None)) 5 2000 =
     \<lparr>result = Inl (new_Error
         ''Failed to parse response: Unexpected token < in JSON at position 0''),
      slept = [], attempts = 1\<rparr>"
  by (simp add: makeRequestWithRetry_def unparseable_is_final)

text \<open>
  For comparison, the neighbouring cases are retried: a socket error with the code
  \<open>ETIMEDOUT\<close>, and a 502 whose body is JSON, both cost one delay and succeed at the
  second attempt. Five 503 answers in a row use up the five attempts.
\<close>

lemma neighbouring_cases_are_retried:
  "makeRequestWithRetry (Some ''sk-test'')
     (\<lambda>i. if i = 0
          then SocketError \<lparr>message = ''connect ETIMEDOUT'', status = None,
                             code = Some ''ETIMEDOUT''\<rparr>
          else Response 200 (JsonValue () None)) 5 2000 =
     \<lparr>result = Inr (Some (JsonValue () None)), slept = [2000], attempts = 2\<rparr>"
  "makeRequestWithRetry (Some ''sk-test'')
     (\<lambda>i. if i = 0 then Response 502 (JsonValue () None)
          else Response 200 (JsonValue () None)) 5 2000 =
     \<lparr>result = Inr (Some (JsonValue () None)), slept = [2000], attempts = 2\<rparr>"
  "makeRequestWithRetry (Some ''sk-test'') (\<lambda>i. Response 503 (JsonValue () None)) 5 2000 =
     \<lparr>result = Inl \<lparr>message = ''HTTP 503'', status = Some 503, code = None\<rparr>,
      slept = [2000, 4000, 8000, 16000], attempts = 5\<rparr>"
  by code_simp+

subsection \<open>The delays\<close>






subsection \<open>The scheduler\<close>

lemma scheduled_append:
  "scheduled (evs @ [e]) = scheduled evs @ (case e of Schedule q \<Rightarrow> [q] | Settle q \<Rightarrow> [])"
  by (induction evs rule: scheduled.induct) (auto split: event.splits)

lemma sched_inv_initial: "sched_inv initial"
  by (simp add: sched_inv_def initial_def constructor_def)

lemma length_remove1_in: "q \<in> set xs \<Longrightarrow> int (length (remove1 q xs)) = int (length xs) - 1"
  by (simp add: length_remove1) (cases xs; simp)

lemma sched_inv_step: "sched_inv s \<Longrightarrow> sched_inv (step s e)"
proof (cases e)
  case (Schedule q)
  assume "sched_inv s"
  then show ?thesis
    unfolding Schedule
    by (cases "requestQueue (client s)")
       (auto simp add: sched_inv_def launch_def scheduleRequest_def processQueue_def)
next
  case (Settle q)
  assume "sched_inv s"
  then show ?thesis
    unfolding Settle
    by (cases "requestQueue (client s)")
       (auto simp add: sched_inv_def launch_def finishRequest_def processQueue_def
          length_remove1_in)
qed

lemma fifo_step:
  "started (step s e) @ requestQueue (client (step s e)) =
     started s @ requestQueue (client s) @ (case e of Schedule q \<Rightarrow> [q] | Settle q \<Rightarrow> [])"
proof (cases e)
  case (Schedule q)
  show ?thesis
    unfolding Schedule
    by (cases "requestQueue (client s)")
       (auto simp add: launch_def scheduleRequest_def processQueue_def)
next
  case (Settle q)
  show ?thesis
    unfolding Settle
    by (cases "requestQueue (client s)")
       (auto simp add: launch_def finishRequest_def processQueue_def)
qed

lemma run_snoc: "run (evs @ [e]) = step (run evs) e"
  by (simp add: run_def)

lemma sched_inv_run: "sched_inv (run evs)"
proof (induction evs rule: rev_induct)
  case Nil
  show ?case by (simp add: run_def sched_inv_initial)
next
  case (snoc e evs)
  then show ?case by (simp add: run_snoc sched_inv_step)
qed

lemma fifo_run: "started (run evs) @ requestQueue (client (run evs)) = scheduled evs"
proof (induction evs rule: rev_induct)
  case Nil
  show ?case by (simp add: run_def initial_def constructor_def)
next
  case (snoc e evs)
  then show ?case by (simp add: run_snoc fifo_step scheduled_append)
qed

text \<open>
  C5. After any sequence of scheduling calls and settlements, the counter
  \<open>activeRequests\<close> is the number of requests in flight and is at most the cap
  \<open>maxConcurrentRequests = 4\<close>; a request waits in the queue only while four are in
  flight; and the requests started so far, followed by those still queued, are the
  requests scheduled, in the order of the calls: requests start first in, first out.
\<close>

theorem scheduler_cap_and_fifo:
  "maxConcurrentRequests (client (run evs)) = 4
   \<and> activeRequests (client (run evs)) = int (length (in_flight (run evs)))
   \<and> activeRequests (client (run evs)) \<le> maxConcurrentRequests (client (run evs))
   \<and> (requestQueue (client (run evs)) \<noteq> [] \<longrightarrow> activeRequests (client (run evs)) = 4)
   \<and> started (run evs) @ requestQueue (client (run evs)) = scheduled evs"
  using sched_inv_run [of evs] fifo_run [of evs]
  by (auto simp add: sched_inv_def)

theorem scheduler_cap_and_fifo_witness:
  "requestQueue (client (run (map (\<lambda>n. Schedule (messages_request n)) [1, 2, 3, 4, 5, 6]
                               @ [Settle (messages_request 3)]))) = [messages_request 6]
   \<and> activeRequests (client (run (map (\<lambda>n. Schedule (messages_request n)) [1, 2, 3, 4, 5, 6]
                               @ [Settle (messages_request 3)]))) = 4
   \<and> started (run (map (\<lambda>n. Schedule (messages_request n)) [1, 2, 3, 4, 5, 6]
                               @ [Settle (messages_request 3)])) =
       map messages_request [1, 2, 3, 4, 5]"
proof -
  let ?evs = "map (\<lambda>n. Schedule (messages_request n)) [1, 2, 3, 4, 5, 6]
                @ [Settle (messages_request 3)]"
  have waiting: "requestQueue (client (run ?evs)) = [messages_request 6]"
    by code_simp
  with scheduler_cap_and_fifo [of ?evs]
  have "activeRequests (client (run ?evs)) = 4"
    and "started (run ?evs) @ [messages_request 6] = scheduled ?evs"
    by simp_all
  moreover have "scheduled ?evs = map messages_request [1, 2, 3, 4, 5] @ [messages_request 6]"
    by simp
  ultimately show ?thesis using waiting by simp
qed

section \<open>Properties of the pipeline run\<close>

subsection \<open>Sequencing\<close>

lemma andThen_Inr: "m s = (Inr v, s1) \<Longrightarrow> andThen m f s = f v s1"
  by (simp add: andThen_def)

lemma andThen_Inl: "m s = (Inl error, s1) \<Longrightarrow> andThen m f s = (Inl error, s1)"
  by (simp add: andThen_def)

lemma andThen_InrE:
  assumes "andThen m f s = (Inr v, s')"
  obtains x s1 where "m s = (Inr x, s1)" and "f x s1 = (Inr v, s')"
  using assms by (auto simp add: andThen_def split: prod.splits sum.splits)

lemma finally_do_InrE:
  assumes "finally_do m c s = (Inr v, s')"
  obtains s1 where "m s = (Inr v, s1)" and "c s1 = (Inr (), s')"
  using assms by (auto simp add: finally_do_def split: prod.splits sum.splits)

lemma external_Inr: "external fault s = (Inr v, s') \<Longrightarrow> s' = s"
  by (cases fault) (simp_all add: external_def succeed_def throw_def)

subsection \<open>Clearing the stores\<close>

lemma delete_from_Inr:
  "delete_from w t b = (Inr v, b') \<Longrightarrow>
   b' = b\<lparr>stores := (stores b)\<lparr>sqlite := (sqlite (stores b))(t \<mapsto> [])\<rparr>\<rparr>"
  by (auto simp add: delete_from_def split: option.splits)

lemma need_Inr: "need field name b = (Inr v, b') \<Longrightarrow> b' = b"
  by (simp add: need_def succeed_def throw_def split: if_splits)

lemma flushdb_Inr:
  "flushdb w b = (Inr v, b') \<Longrightarrow> b' = b\<lparr>stores := (stores b)\<lparr>redis := []\<rparr>\<rparr>"
  by (auto simp add: flushdb_def split: option.splits)

lemma detach_delete_all_Inr:
  "detach_delete_all w b = (Inr v, b') \<Longrightarrow>
   b' = b\<lparr>stores := (stores b)\<lparr>neo4j_nodes := [], neo4j_relationships := []\<rparr>\<rparr>"
  by (auto simp add: detach_delete_all_def split: option.splits)

text \<open>
  C9. When \<open>clearAllDatabases\<close> returns without throwing, the six tables have no rows,
  the broker's database has no keys, and the graph has no nodes and no relationships.
  The statement is about the state the method leaves by its own statements; what other
  tasks write while it waits is not part of it.
\<close>

theorem clear_purges_all_stores:
  assumes "fst (clearAllDatabases w b) = Inr ()"
  shows "(\<forall>t \<in> {''relationships'', ''relationship_evidence'', ''pois'', ''files'',
                  ''directory_summaries'', ''outbox''}.
            sqlite (stores (snd (clearAllDatabases w b))) t = Some [])
       \<and> redis (stores (snd (clearAllDatabases w b))) = []
       \<and> neo4j_nodes (stores (snd (clearAllDatabases w b))) = []
       \<and> neo4j_relationships (stores (snd (clearAllDatabases w b))) = []"
proof -
  obtain b' where returned: "clearAllDatabases w b = (Inr (), b')"
    using assms by (cases "clearAllDatabases w b") simp
  then obtain u0 b0 where
    rest: "andThen (delete_from w ''relationships'') (\<lambda>u.
           andThen (delete_from w ''relationship_evidence'') (\<lambda>u.
           andThen (delete_from w ''pois'') (\<lambda>u.
           andThen (delete_from w ''files'') (\<lambda>u.
           andThen (delete_from w ''directory_summaries'') (\<lambda>u.
           andThen (delete_from w ''outbox'') (\<lambda>u.
           andThen (need cacheClient ''flushdb'') (\<lambda>u.
           andThen (flushdb w) (\<lambda>u.
           andThen (need neo4jDriver ''session'') (\<lambda>u.
           finally_do (detach_delete_all w) (external (clear_session_close w))))))))))) b0
             = (Inr (), b')"
    unfolding clearAllDatabases_def by (rule andThen_InrE)
  from rest obtain u1 b1 where b1: "delete_from w ''relationships'' b0 = (Inr u1, b1)"
    and rest: "andThen (delete_from w ''relationship_evidence'') (\<lambda>u.
           andThen (delete_from w ''pois'') (\<lambda>u.
           andThen (delete_from w ''files'') (\<lambda>u.
           andThen (delete_from w ''directory_summaries'') (\<lambda>u.
           andThen (delete_from w ''outbox'') (\<lambda>u.
           andThen (need cacheClient ''flushdb'') (\<lambda>u.
           andThen (flushdb w) (\<lambda>u.
           andThen (need neo4jDriver ''session'') (\<lambda>u.
           finally_do (detach_delete_all w) (external (clear_session_close w)))))))))) b1
             = (Inr (), b')"
    by (rule andThen_InrE)
  from rest obtain u2 b2 where b2: "delete_from w ''relationship_evidence'' b1 = (Inr u2, b2)"
    and rest: "andThen (delete_from w ''pois'') (\<lambda>u.
           andThen (delete_from w ''files'') (\<lambda>u.
           andThen (delete_from w ''directory_summaries'') (\<lambda>u.
           andThen (delete_from w ''outbox'') (\<lambda>u.
           andThen (need cacheClient ''flushdb'') (\<lambda>u.
           andThen (flushdb w) (\<lambda>u.
           andThen (need neo4jDriver ''session'') (\<lambda>u.
           finally_do (detach_delete_all w) (external (clear_session_close w))))))))) b2
             = (Inr (), b')"
    by (rule andThen_InrE)
  from rest obtain u3 b3 where b3: "delete_from w ''pois'' b2 = (Inr u3, b3)"
    and rest: "andThen (delete_from w ''files'') (\<lambda>u.
           andThen (delete_from w ''directory_summaries'') (\<lambda>u.
           andThen (delete_from w ''outbox'') (\<lambda>u.
           andThen (need cacheClient ''flushdb'') (\<lambda>u.
           andThen (flushdb w) (\<lambda>u.
           andThen (need neo4jDriver ''session'') (\<lambda>u.
           finally_do (detach_delete_all w) (external (clear_session_close w)))))))) b3
             = (Inr (), b')"
    by (rule andThen_InrE)
  from rest obtain u4 b4 where b4: "delete_from w ''files'' b3 = (Inr u4, b4)"
    and rest: "andThen (delete_from w ''directory_summaries'') (\<lambda>u.
           andThen (delete_from w ''outbox'') (\<lambda>u.
           andThen (need cacheClient ''flushdb'') (\<lambda>u.
           andThen (flushdb w) (\<lambda>u.
           andThen (need neo4jDriver ''session'') (\<lambda>u.
           finally_do (detach_delete_all w) (external (clear_session_close w))))))) b4
             = (Inr (), b')"
    by (rule andThen_InrE)
  from rest obtain u5 b5 where b5: "delete_from w ''directory_summaries'' b4 = (Inr u5, b5)"
    and rest: "andThen (delete_from w ''outbox'') (\<lambda>u.
           andThen (need cacheClient ''flushdb'') (\<lambda>u.
           andThen (flushdb w) (\<lambda>u.
           andThen (need neo4jDriver ''session'') (\<lambda>u.
           finally_do (detach_delete_all w) (external (clear_session_close w)))))) b5
             = (Inr (), b')"
    by (rule andThen_InrE)
  from rest obtain u6 b6 where b6: "delete_from w ''outbox'' b5 = (Inr u6, b6)"
    and rest: "andThen (need cacheClient ''flushdb'') (\<lambda>u.
           andThen (flushdb w) (\<lambda>u.
           andThen (need neo4jDriver ''session'') (\<lambda>u.
           finally_do (detach_delete_all w) (external (clear_session_close w))))) b6
             = (Inr (), b')"
    by (rule andThen_InrE)
  from rest obtain u7 b7 where b7: "need cacheClient ''flushdb'' b6 = (Inr u7, b7)"
    and rest: "andThen (flushdb w) (\<lambda>u.
           andThen (need neo4jDriver ''session'') (\<lambda>u.
           finally_do (detach_delete_all w) (external (clear_session_close w)))) b7
             = (Inr (), b')"
    by (rule andThen_InrE)
  from rest obtain u8 b8 where b8: "flushdb w b7 = (Inr u8, b8)"
    and rest: "andThen (need neo4jDriver ''session'') (\<lambda>u.
           finally_do (detach_delete_all w) (external (clear_session_close w))) b8
             = (Inr (), b')"
    by (rule andThen_InrE)
  from rest obtain u9 b9 where b9: "need neo4jDriver ''session'' b8 = (Inr u9, b9)"
    and rest: "finally_do (detach_delete_all w) (external (clear_session_close w)) b9
             = (Inr (), b')"
    by (rule andThen_InrE)
  from rest obtain b10 where b10: "detach_delete_all w b9 = (Inr (), b10)"
    and closed: "external (clear_session_close w) b10 = (Inr (), b')"
    by (rule finally_do_InrE)
  have "b' = b10" using closed by (rule external_Inr)
  with delete_from_Inr [OF b1] delete_from_Inr [OF b2] delete_from_Inr [OF b3]
    delete_from_Inr [OF b4] delete_from_Inr [OF b5] delete_from_Inr [OF b6]
    need_Inr [OF b7] flushdb_Inr [OF b8] need_Inr [OF b9] detach_delete_all_Inr [OF b10]
  show ?thesis unfolding returned by simp
qed

theorem clear_purges_all_stores_witness:
  "fst (clearAllDatabases quiet_world \<lparr>fac = new_factory, stores = used_stores\<rparr>) = Inr ()
   \<and> sqlite used_stores ''pois'' = Some [[''1'', ''a''], [''2'', ''b'']]
   \<and> sqlite (stores (snd (clearAllDatabases quiet_world
                              \<lparr>fac = new_factory, stores = used_stores\<rparr>))) ''pois'' = Some []
   \<and> redis (stores (snd (clearAllDatabases quiet_world
                             \<lparr>fac = new_factory, stores = used_stores\<rparr>))) = []
   \<and> neo4j_nodes (stores (snd (clearAllDatabases quiet_world
                                   \<lparr>fac = new_factory, stores = used_stores\<rparr>))) = []"
proof -
  have returns:
    "fst (clearAllDatabases quiet_world \<lparr>fac = new_factory, stores = used_stores\<rparr>) = Inr ()"
    by code_simp
  have before: "sqlite used_stores ''pois'' = Some [[''1'', ''a''], [''2'', ''b'']]"
    by (simp add: used_stores_def)
  from clear_purges_all_stores [OF returns] returns before show ?thesis by simp
qed

text \<open>
  A table that is missing makes the method throw, and the stores behind it in the
  sequence keep their content.
\<close>

lemma clear_stops_at_missing_table:
  "fst (clearAllDatabases quiet_world
          \<lparr>fac = new_factory, stores = used_stores\<lparr>sqlite := Map.empty\<rparr>\<rparr>) =
     Inl (new_Error ''no such table: relationships'')"
  "redis (stores (snd (clearAllDatabases quiet_world
          \<lparr>fac = new_factory, stores = used_stores\<lparr>sqlite := Map.empty\<rparr>\<rparr>))) =
     [(''bull:file-analysis-queue:id'', ''7'')]"
  by code_simp+

subsection \<open>The status records\<close>

lemma registered_update:
  "registered a p \<Longrightarrow> registered (updatePipelineStatus w q updates logMessage a) p"
  by (simp add: updatePipelineStatus_def registered_def now_def Let_def
      split: option.splits prod.splits)

lemma registered_register: "registered (register_pipeline w p d a) p"
  by (simp add: register_pipeline_def registered_def now_def Let_def)


lemma report_failure_props:
  assumes "registered a p"
  shows "field_of (report_failure w p error a) p ''status'' = Some (VStr ''failed'')"
    and "field_of (report_failure w p error a) p ''phase'' = Some (VStr ''failed'')"
    and "field_of (report_failure w p error a) p ''error'' = Some (VStr (message error))"
    and "field_of (report_failure w p error a) p ''endTime'' =
           Some (VTime (clock w (clock_reads a)))"
    and "field_of (report_failure w p error a) p ''lastUpdate'' =
           Some (VTime (clock w (Suc (clock_reads a))))"
  using assms
  by (auto simp add: report_failure_def updatePipelineStatus_def registered_def now_def Let_def
      field_of_def apply_update_def split: option.splits prod.splits)

subsection \<open>No step of a run drops the status record\<close>

lemma keeps_update_status: "keeps p (update_status w q updates logMessage)"
  by (simp add: keeps_def update_status_def registered_update)

lemma keeps_on_services: "keeps p (on_services m)"
  by (simp add: keeps_def on_services_def split: prod.splits)

lemma keeps_on_stores: "keeps p (on_stores m)"
  by (simp add: keeps_def on_stores_def split: prod.splits)

lemma keeps_succeed: "keeps p (succeed v)"
  by (simp add: keeps_def succeed_def)

lemma keeps_throw: "keeps p (throw error)"
  by (simp add: keeps_def throw_def)

lemma keeps_external: "keeps p (external fault)"
  by (cases fault) (simp_all add: external_def keeps_succeed keeps_throw)

lemma keeps_external_value: "keeps p (external_value r)"
  by (cases r) (simp_all add: external_value_def keeps_succeed keeps_throw)

lemma keeps_if: "keeps p m \<Longrightarrow> keeps p n \<Longrightarrow> keeps p (if c then m else n)"
  by simp

lemma keeps_andThen:
  assumes "keeps p m" and "\<And>v. keeps p (f v)"
  shows "keeps p (andThen m f)"
  unfolding keeps_def
proof (intro allI impI)
  fix s :: run_state
  assume reg: "registered (registry s) p"
  obtain r s1 where m: "m s = (r, s1)" by (cases "m s")
  from assms(1) reg m have reg1: "registered (registry s1) p"
    by (auto simp add: keeps_def)
  show "registered (registry (snd (andThen m f s))) p"
  proof (cases r)
    case (Inl error)
    with m reg1 show ?thesis by (simp add: andThen_def)
  next
    case (Inr v)
    from assms(2) [of v] reg1 have "registered (registry (snd (f v s1))) p"
      by (simp add: keeps_def)
    with m Inr show ?thesis by (simp add: andThen_def)
  qed
qed

lemma keeps_finally_do:
  assumes "keeps p m" and "keeps p c"
  shows "keeps p (finally_do m c)"
  unfolding keeps_def
proof (intro allI impI)
  fix s :: run_state
  assume reg: "registered (registry s) p"
  obtain r s1 where m: "m s = (r, s1)" by (cases "m s")
  from assms(1) reg m have reg1: "registered (registry s1) p"
    by (auto simp add: keeps_def)
  obtain r2 s2 where c: "c s1 = (r2, s2)" by (cases "c s1")
  from assms(2) reg1 c have "registered (registry s2) p"
    by (auto simp add: keeps_def)
  with m c show "registered (registry (snd (finally_do m c s))) p"
    by (cases r2) (simp_all add: finally_do_def)
qed

lemma keeps_completed_update: "keeps p (completed_update w q)"
  unfolding keeps_def
proof (intro allI impI)
  fix s :: run_state
  assume "registered (registry s) p"
  then have "registered (snd (now w (registry s))) p"
    by (simp add: now_def registered_def)
  then show "registered (registry (snd (completed_update w q s))) p"
    by (cases "now w (registry s)")
       (simp add: completed_update_def update_status_def registered_update)
qed

lemma keeps_try_block: "keeps p (try_block w q d)"
  unfolding try_block_def clear_phase_def connections_phase_def entity_scout_phase_def
    graph_builder_phase_def relationship_resolver_phase_def
  by (intro keeps_andThen keeps_finally_do keeps_if keeps_update_status keeps_on_services
      keeps_on_stores keeps_external keeps_external_value keeps_succeed keeps_throw
      keeps_completed_update)

subsection \<open>The call as a whole\<close>

lemma registered_after_try: "registered (registry_after_try w p d a st) p"
proof (cases "load_factory w")
  case None
  have "registered (registry (first_state w p d a st)) p"
    by (simp add: first_state_def registered_register)
  with keeps_try_block [of p w p d] show ?thesis
    by (simp add: registry_after_try_def None keeps_def)
next
  case (Some error)
  then show ?thesis by (simp add: registry_after_try_def registered_register)
qed


lemma start_registry:
  "fst (snd (startPipelineAsync w p d a st)) =
     (case thrown_in_try w p d a st of
        Some error \<Rightarrow> report_failure w p error (registry_after_try w p d a st)
      | None \<Rightarrow> registry_after_try w p d a st)"
  by (simp add: startPipelineAsync_def thrown_in_try_def registry_after_try_def first_state_def
      Let_def split: option.splits prod.splits sum.splits)




subsection \<open>The connection guard\<close>

lemma testConnections_keys:
  assumes "fst (testConnections w b) = Inr c"
  shows "dom c = {''sqlite'', ''anthropic'', ''neo4j'', ''redis''}"
proof -
  obtain r b0 where init: "ensure_initialized w b = (r, b0)"
    by (cases "ensure_initialized w b")
  with assms obtain u where "r = Inr u"
    by (cases r) (simp_all add: testConnections_def andThen_def)
  with assms init have c: "c =
      probe (cacheClient (fac b0)) (redis_probe w) ''redis''
        (probe (neo4jDriver (fac b0)) (neo4j_probe w) ''neo4j''
          (probe_anthropic (llmClient (fac b0)) (anthropic_probe w)
            (probe (dbManager (fac b0)) (sqlite_probe w) ''sqlite''
               [''sqlite'' \<mapsto> False, ''anthropic'' \<mapsto> False, ''neo4j'' \<mapsto> False,
                ''redis'' \<mapsto> False])))"
    by (simp add: testConnections_def andThen_def Let_def)
  have p: "\<And>present fault key results. key \<in> dom results \<Longrightarrow>
             dom (probe present fault key results) = dom results"
    by (auto simp add: probe_def)
  have pa: "\<And>present r results. ''anthropic'' \<in> dom results \<Longrightarrow>
             dom (probe_anthropic present r results) = dom results"
    by (auto simp add: probe_anthropic_def split: sum.splits)
  show ?thesis unfolding c by (simp add: p pa insert_commute)
qed

lemma clear_phase_returns:
  assumes "fst (clearAllDatabases w (services s)) = Inr ()"
  shows "fst (clear_phase w p s) = Inr ()"
    and "services (snd (clear_phase w p s)) = snd (clearAllDatabases w (services s))"
  using assms
  by (cases "clearAllDatabases w (services s)";
      simp add: clear_phase_def andThen_def update_status_def on_services_def)+

lemma connections_phase_guard:
  assumes "fst (testConnections w (services s)) = Inr c"
  shows "fst (connections_phase w p s) = Inl (new_Error ''Required connections failed'')"
proof -
  from testConnections_keys [OF assms] have "''deepseek'' \<notin> dom c" by simp
  then have "c ''deepseek'' = None" by (simp add: domIff)
  with assms show ?thesis
    by (cases "testConnections w (services s)")
       (simp add: connections_phase_def andThen_def update_status_def on_services_def
          throw_def connected_def)
qed

lemma andThen_fst_Inl: "fst (m s) = Inl error \<Longrightarrow> fst (andThen m f s) = Inl error"
  by (cases "m s") (simp add: andThen_def)

text \<open>
  C1. When the factory loads and \<open>clearAllDatabases\<close> and \<open>testConnections\<close> return, the
  object that \<open>testConnections\<close> returns has exactly the keys \<open>sqlite\<close>, \<open>anthropic\<close>,
  \<open>neo4j\<close> and \<open>redis\<close>; the guard of phase 2 reads \<open>deepseek\<close>, finds nothing and throws
  \<open>Required connections failed\<close>, whatever the probes found; and the run ends with the
  status record set to \<open>failed\<close> with that message.
\<close>

theorem deepseek_guard_always_fails:
  assumes "load_factory w = None"
    and "fst (clearAllDatabases w \<lparr>fac = new_factory, stores = st\<rparr>) = Inr ()"
    and "fst (testConnections w (snd (clearAllDatabases w \<lparr>fac = new_factory, stores = st\<rparr>))) =
           Inr connections"
  shows "dom connections = {''sqlite'', ''anthropic'', ''neo4j'', ''redis''}
       \<and> thrown_in_try w p d a st = Some (new_Error ''Required connections failed'')
       \<and> field_of (fst (snd (startPipelineAsync w p d a st))) p ''status'' = Some (VStr ''failed'')
       \<and> field_of (fst (snd (startPipelineAsync w p d a st))) p ''error'' =
           Some (VStr ''Required connections failed'')"
proof -
  let ?s1 = "first_state w p d a st"
  have services1: "services ?s1 = \<lparr>fac = new_factory, stores = st\<rparr>"
    by (simp add: first_state_def)
  obtain r sA where cleared: "clear_phase w p ?s1 = (r, sA)"
    by (cases "clear_phase w p ?s1")
  from clear_phase_returns [of w ?s1 p] assms(2) cleared
  have r: "r = Inr ()"
    and servicesA: "services sA = snd (clearAllDatabases w \<lparr>fac = new_factory, stores = st\<rparr>)"
    by (simp_all add: services1)
  from assms(3) have "fst (testConnections w (services sA)) = Inr connections"
    by (simp add: servicesA)
  then have guard: "fst (connections_phase w p sA) = Inl (new_Error ''Required connections failed'')"
    by (rule connections_phase_guard)
  have "fst (try_block w p d ?s1) = Inl (new_Error ''Required connections failed'')"
    unfolding try_block_def
    by (simp add: andThen_Inr [where m = "clear_phase w p" and s = ?s1, OF cleared [unfolded r]]
        andThen_fst_Inl [where m = "connections_phase w p" and s = sA, OF guard])
  with assms(1) have thrown:
    "thrown_in_try w p d a st = Some (new_Error ''Required connections failed'')"
    by (simp add: thrown_in_try_def)
  have reg: "registered (registry_after_try w p d a st) p"
    by (rule registered_after_try)
  from report_failure_props(1,3) [OF reg, where w = w
         and error = "new_Error ''Required connections failed''"]
  have "field_of (fst (snd (startPipelineAsync w p d a st))) p ''status'' = Some (VStr ''failed'')"
    and "field_of (fst (snd (startPipelineAsync w p d a st))) p ''error'' =
           Some (VStr ''Required connections failed'')"
    by (simp_all add: start_registry thrown new_Error_def)
  with testConnections_keys [OF assms(3)] thrown show ?thesis by simp
qed

theorem deepseek_guard_always_fails_witness:
  "load_factory quiet_world = None
   \<and> fst (clearAllDatabases quiet_world \<lparr>fac = new_factory, stores = used_stores\<rparr>) = Inr ()
   \<and> fst (testConnections quiet_world
            (snd (clearAllDatabases quiet_world \<lparr>fac = new_factory, stores = used_stores\<rparr>))) =
       Inr [''sqlite'' \<mapsto> True, ''anthropic'' \<mapsto> True, ''neo4j'' \<mapsto> True, ''redis'' \<mapsto> True]
   \<and> field_of (fst (snd (startPipelineAsync quiet_world ''p1'' ''/repo'' no_pipelines used_stores)))
        ''p1'' ''status'' = Some (VStr ''failed'')
   \<and> field_of (fst (snd (startPipelineAsync quiet_world ''p1'' ''/repo'' no_pipelines used_stores)))
        ''p1'' ''error'' = Some (VStr ''Required connections failed'')"
proof -
  have loads: "load_factory quiet_world = None"
    by (simp add: quiet_world_def)
  have clears:
    "fst (clearAllDatabases quiet_world \<lparr>fac = new_factory, stores = used_stores\<rparr>) = Inr ()"
    by code_simp
  have ready: "fac (snd (clearAllDatabases quiet_world \<lparr>fac = new_factory, stores = used_stores\<rparr>)) =
      \<lparr>agents = [], workers = [], dbManager = True, queueManager = True, cacheClient = True,
       llmClient = True, neo4jDriver = True\<rparr>"
    by code_simp
  have tests: "fst (testConnections quiet_world
            (snd (clearAllDatabases quiet_world \<lparr>fac = new_factory, stores = used_stores\<rparr>))) =
       Inr [''sqlite'' \<mapsto> True, ''anthropic'' \<mapsto> True, ''neo4j'' \<mapsto> True, ''redis'' \<mapsto> True]"
  proof -
    have probes: "sqlite_probe quiet_world = None" "anthropic_probe quiet_world = Inr True"
      "neo4j_probe quiet_world = None" "redis_probe quiet_world = None"
      by (simp_all add: quiet_world_def)
    show ?thesis
      by (simp add: testConnections_def andThen_def ensure_initialized_def succeed_def Let_def
          ready probe_def probe_anthropic_def probes)
  qed
  from deepseek_guard_always_fails [OF loads clears tests, of "''p1''" "''/repo''" no_pipelines]
    loads clears tests
  show ?thesis by simp
qed

text \<open>
  More is true: no run completes. Either something throws before the guard, or the guard
  throws; the status record ends \<open>failed\<close> in every environment.
\<close>

lemma connections_phase_always_throws: "\<exists>error. fst (connections_phase w p s) = Inl error"
proof (cases "fst (testConnections w (services s))")
  case (Inl error)
  then have "fst (connections_phase w p s) = Inl error"
    by (cases "testConnections w (services s)")
       (simp add: connections_phase_def andThen_def update_status_def on_services_def)
  then show ?thesis by blast
next
  case (Inr c)
  from connections_phase_guard [OF this] show ?thesis by blast
qed

lemma try_block_always_throws: "\<exists>error. fst (try_block w p d s) = Inl error"
proof -
  obtain r sA where cleared: "clear_phase w p s = (r, sA)"
    by (cases "clear_phase w p s")
  show ?thesis
  proof (cases r)
    case (Inl error)
    with cleared have "fst (try_block w p d s) = Inl error"
      by (simp add: try_block_def andThen_def)
    then show ?thesis by blast
  next
    case (Inr u)
    obtain error where "fst (connections_phase w p sA) = Inl error"
      using connections_phase_always_throws by blast
    then have "fst (try_block w p d s) = Inl error"
      unfolding try_block_def
      by (simp add: andThen_Inr [where m = "clear_phase w p" and s = s, OF cleared [unfolded Inr]]
          andThen_fst_Inl)
    then show ?thesis by blast
  qed
qed

lemma no_run_completes:
  "field_of (fst (snd (startPipelineAsync w p d a st))) p ''status'' = Some (VStr ''failed'')"
proof -
  from try_block_always_throws [of w p d "first_state w p d a st"]
  have "\<exists>error. thrown_in_try w p d a st = Some error"
    by (cases "load_factory w") (auto simp add: thrown_in_try_def)
  then obtain error where "thrown_in_try w p d a st = Some error"
    by blast
  with report_failure_props(1) [OF registered_after_try] show ?thesis
    by (simp add: start_registry)
qed

end
